theory Spec2Isabelle
  imports Complex_Main
begin

section \<open>Data model of backend/server.py\<close>

text \<open>
  A \<open>datetime\<close> (stored by \<open>prepare_for_mongo\<close> as an ISO-8601 string of a UTC instant) is
  modelled as the instant it denotes, a natural number; the order used by the store's
  sort is the order of instants.
\<close>

type_synonym datetime = nat

subsection \<open>Double-precision floats\<close>

text \<open>
  Monetary amounts are Python floats in the handlers and BSON doubles in the store: IEEE
  754 binary64 values, added by the same operation in Python's \<open>+\<close> and in the store's
  \<open>$inc\<close>, and compared by Python's \<open><\<close>. A request body may carry any of them,
  \<open>NaN\<close> and the infinities included.

  \<open>Fin m e\<close> is the finite value \<open>m * 2 ^ e\<close>. Every operation returns a finite value in
  the form where \<open>m\<close> is odd, or as \<open>Fin 0 0\<close>; the literals of the source are written in
  that form: \<open>0.0\<close> is \<open>Fin 0 0\<close>, \<open>0.5\<close> is \<open>Fin 1 (- 1)\<close>, \<open>5.0\<close> is \<open>Fin 5 0\<close>, \<open>10.0\<close> is
  \<open>Fin 5 1\<close>. The sign of zero is not modelled (both zeros compare equal and nothing here
  divides).
\<close>

datatype double = Fin int int | PInf | NInf | NaN

text \<open>The number of binary digits of a natural number (Python's \<open>int.bit_length\<close>).\<close>

fun bit_length :: "nat \<Rightarrow> nat" where
  "bit_length n = (if n = 0 then 0 else Suc (bit_length (n div 2)))"

function normalise :: "int \<Rightarrow> int \<Rightarrow> double" where
  "normalise m e =
     (if m = 0 then Fin 0 0
      else if even m then normalise (m div 2) (e + 1)
      else Fin m e)"
  by pat_completeness auto
termination
  by (relation "measure (\<lambda>(m, e). nat \<bar>m\<bar>)") auto

text \<open>The integer nearest to \<open>s / d\<close> for \<open>d > 0\<close>, a tie going to the even one.\<close>

definition round_half_even_div :: "int \<Rightarrow> int \<Rightarrow> int" where
  "round_half_even_div s d =
     (let f = s div d; r = s mod d
      in if 2 * r < d then f
         else if d < 2 * r then f + 1
         else if even f then f else f + 1)"

text \<open>
  \<open>round_double s e\<close> rounds the exact value \<open>s * 2 ^ e\<close> to binary64 in the default
  rounding mode: the unit in the last place is \<open>2 ^ q\<close>, where \<open>q\<close> leaves 53 significant
  bits and is at least the subnormal exponent -1074; a magnitude that rounds to
  \<open>2 ^ 1024\<close> or more overflows to an infinity.
\<close>

definition finish :: "int \<Rightarrow> int \<Rightarrow> double" where
  "finish m q =
     (if 1024 < int (bit_length (nat \<bar>m\<bar>)) + q
      then (if 0 < m then PInf else NInf)
      else normalise m q)"

definition round_double :: "int \<Rightarrow> int \<Rightarrow> double" where
  "round_double s e =
     (let n = int (bit_length (nat \<bar>s\<bar>));
          q = max (n - 53 + e) (- 1074)
      in if q \<le> e then finish s e
         else finish (round_half_even_div s (2 ^ nat (q - e))) q)"

fun fadd :: "double \<Rightarrow> double \<Rightarrow> double" where
  "fadd NaN _ = NaN"
| "fadd _ NaN = NaN"
| "fadd PInf NInf = NaN"
| "fadd NInf PInf = NaN"
| "fadd PInf _ = PInf"
| "fadd _ PInf = PInf"
| "fadd NInf _ = NInf"
| "fadd _ NInf = NInf"
| "fadd (Fin m1 e1) (Fin m2 e2) =
     (let e = min e1 e2
      in round_double (m1 * 2 ^ nat (e1 - e) + m2 * 2 ^ nat (e2 - e)) e)"

fun fneg :: "double \<Rightarrow> double" where
  "fneg (Fin m e) = Fin (- m) e"
| "fneg PInf = NInf"
| "fneg NInf = PInf"
| "fneg NaN = NaN"

text \<open>The comparisons \<open><\<close> and \<open><=\<close>: false whenever an operand is \<open>NaN\<close>.\<close>

fun flt :: "double \<Rightarrow> double \<Rightarrow> bool" where
  "flt NaN _ = False"
| "flt _ NaN = False"
| "flt (Fin m1 e1) (Fin m2 e2) =
     (let e = min e1 e2 in m1 * 2 ^ nat (e1 - e) < m2 * 2 ^ nat (e2 - e))"
| "flt (Fin m e) PInf = True"
| "flt (Fin m e) NInf = False"
| "flt PInf _ = False"
| "flt NInf NInf = False"
| "flt NInf _ = True"

fun fle :: "double \<Rightarrow> double \<Rightarrow> bool" where
  "fle NaN _ = False"
| "fle _ NaN = False"
| "fle (Fin m1 e1) (Fin m2 e2) =
     (let e = min e1 e2 in m1 * 2 ^ nat (e1 - e) \<le> m2 * 2 ^ nat (e2 - e))"
| "fle (Fin m e) PInf = True"
| "fle (Fin m e) NInf = False"
| "fle PInf PInf = True"
| "fle PInf _ = False"
| "fle NInf _ = True"

text \<open>The rational number a finite double stands for.\<close>

fun val :: "double \<Rightarrow> rat option" where
  "val (Fin m e) = Some (of_int m * (if 0 \<le> e then 2 ^ nat e else 1 / 2 ^ nat (- e)))"
| "val PInf = None"
| "val NInf = None"
| "val NaN = None"

type_synonym amount = double

subsection \<open>Documents\<close>

datatype WithdrawalStatus = PENDING | APPROVED | REJECTED

datatype PaymentMethod = ESEWA | KHALTI

record User =
  u_id :: string
  u_email :: string
  u_password_hash :: string
  u_full_name :: string
  u_wallet_balance :: amount
  u_total_earned :: amount
  u_ads_watched :: int
  u_referral_code :: string
  u_referred_by :: "string option"
  u_is_admin :: bool
  u_created_at :: datetime

record UserCreate =
  uc_email :: string
  uc_password :: string
  uc_full_name :: string
  uc_referral_code :: "string option"

record AdWatch =
  a_id :: string
  a_user_id :: string
  a_ad_type :: string
  a_reward_amount :: amount
  a_watched_at :: datetime

record WithdrawalRequest =
  w_id :: string
  w_user_id :: string
  w_amount :: amount
  w_payment_method :: PaymentMethod
  w_payment_id :: string
  w_status :: WithdrawalStatus
  w_requested_at :: datetime
  w_processed_at :: "datetime option"
  w_admin_notes :: "string option"

record WithdrawalCreate =
  wc_amount :: amount
  wc_payment_method :: PaymentMethod
  wc_payment_id :: string

record WithdrawalUpdate =
  wu_status :: WithdrawalStatus
  wu_admin_notes :: "string option"

record WalletTransaction =
  t_id :: string
  t_user_id :: string
  t_type :: string
  t_amount :: amount
  t_description :: string
  t_created_at :: datetime

text \<open>
  The document store: one collection per entity, each a list of documents in insertion
  order. \<open>find_one\<close> returns the first document that matches the filter, \<open>update_one\<close>
  changes the first document that matches and nothing when none does, \<open>insert_one\<close>
  appends.
\<close>

record db =
  users :: "User list"
  ad_watches :: "AdWatch list"
  transactions :: "WalletTransaction list"
  withdrawals :: "WithdrawalRequest list"

fun find_one :: "('a \<Rightarrow> bool) \<Rightarrow> 'a list \<Rightarrow> 'a option" where
  "find_one P [] = None"
| "find_one P (x # xs) = (if P x then Some x else find_one P xs)"

fun update_one :: "('a \<Rightarrow> bool) \<Rightarrow> ('a \<Rightarrow> 'a) \<Rightarrow> 'a list \<Rightarrow> 'a list" where
  "update_one P f [] = []"
| "update_one P f (x # xs) = (if P x then f x # xs else x # update_one P f xs)"

definition insert_one :: "'a \<Rightarrow> 'a list \<Rightarrow> 'a list" where
  "insert_one x xs = xs @ [x]"

text \<open>
  A raised \<open>HTTPException(status_code, detail)\<close> is a value. An exception that is not an
  \<open>HTTPException\<close> (subscripting \<open>None\<close>) reaches the framework, which answers 500.
\<close>

datatype HTTPException = HTTPException nat string

definition internal_server_error :: HTTPException where
  "internal_server_error = HTTPException 500 ''Internal Server Error''"

text \<open>
  The outcome of \<open>jwt.decode\<close> on the bearer credentials: one of its two exceptions, or
  a payload whose \<open>user_id\<close> entry may be absent.
\<close>

datatype credentials = ExpiredSignatureError | InvalidTokenError | Payload "string option"

definition get_current_user :: "db \<Rightarrow> credentials \<Rightarrow> HTTPException + User" where
  "get_current_user d cred =
     (case cred of
        ExpiredSignatureError \<Rightarrow> Inl (HTTPException 401 ''Token expired'')
      | InvalidTokenError \<Rightarrow> Inl (HTTPException 401 ''Invalid token'')
      | Payload None \<Rightarrow> Inl (HTTPException 401 ''Invalid token'')
      | Payload (Some user_id) \<Rightarrow>
          (case find_one (\<lambda>u. u_id u = user_id) (users d) of
             None \<Rightarrow> Inl (HTTPException 401 ''User not found'')
           | Some user \<Rightarrow> Inr user))"

definition get_admin_user :: "db \<Rightarrow> credentials \<Rightarrow> HTTPException + User" where
  "get_admin_user d cred =
     (case get_current_user d cred of
        Inl e \<Rightarrow> Inl e
      | Inr current_user \<Rightarrow>
          if \<not> u_is_admin current_user
          then Inl (HTTPException 403 ''Admin access required'')
          else Inr current_user)"

section \<open>Handlers\<close>

text \<open>
  Each handler takes the resolved \<open>current_user\<close> as the source's function does, and
  the values it draws while it runs (uuids, the clock, the password hash, the token) as
  further arguments. It returns the store after the call and either the raised exception
  or the response.
\<close>

record UserResponse =
  ur_id :: string
  ur_email :: string
  ur_full_name :: string
  ur_wallet_balance :: amount
  ur_total_earned :: amount
  ur_ads_watched :: int
  ur_referral_code :: string
  ur_is_admin :: bool
  ur_created_at :: datetime

definition user_response :: "User \<Rightarrow> UserResponse" where
  "user_response u =
     \<lparr> ur_id = u_id u, ur_email = u_email u, ur_full_name = u_full_name u,
       ur_wallet_balance = u_wallet_balance u, ur_total_earned = u_total_earned u,
       ur_ads_watched = u_ads_watched u, ur_referral_code = u_referral_code u,
       ur_is_admin = u_is_admin u, ur_created_at = u_created_at u \<rparr>"

subsection \<open>signup\<close>

text \<open>
  The values drawn during a signup: the new user's uuid, referral code and creation
  time, the bcrypt hash of the password, the uuid and time of the bonus transaction, and
  the token.
\<close>

record signup_env =
  se_user_id :: string
  se_referral_code :: string
  se_created_at :: datetime
  se_password_hash :: string
  se_tx_id :: string
  se_tx_created_at :: datetime
  se_token :: string

text \<open>
  Lines 190 to 207, \<open># Handle referral\<close>. A referral code that is \<open>None\<close> or the empty
  string is falsy and skips the lookup.
\<close>

definition handle_referral :: "db \<Rightarrow> User \<Rightarrow> string option \<Rightarrow> signup_env \<Rightarrow> User \<times> db" where
  "handle_referral d user referral_code env =
     (case referral_code of
        None \<Rightarrow> (user, d)
      | Some code \<Rightarrow>
          if code = [] then (user, d)
          else
            (case find_one (\<lambda>u. u_referral_code u = code) (users d) of
               None \<Rightarrow> (user, d)
             | Some referrer \<Rightarrow>
                 let user1 = user\<lparr>u_referred_by := Some (u_id referrer)\<rparr>;
                     d1 = d\<lparr>users :=
                            update_one (\<lambda>u. u_id u = u_id referrer)
                              (\<lambda>u. u\<lparr>u_wallet_balance := fadd (u_wallet_balance u) (Fin 5 0),
                                      u_total_earned := fadd (u_total_earned u) (Fin 5 0)\<rparr>)
                              (users d)\<rparr>;
                     transaction = \<lparr> t_id = se_tx_id env,
                                     t_user_id = u_id referrer,
                                     t_type = ''referral_bonus'',
                                     t_amount = Fin 5 0,
                                     t_description =
                                       ''Referral bonus for inviting '' @ u_full_name user1,
                                     t_created_at = se_tx_created_at env \<rparr>;
                     d2 = d1\<lparr>transactions := insert_one transaction (transactions d1)\<rparr>
                 in (user1, d2)))"

definition signup ::
  "db \<Rightarrow> UserCreate \<Rightarrow> signup_env \<Rightarrow> db \<times> (HTTPException + string \<times> UserResponse)" where
  "signup d user_data env =
     (case find_one (\<lambda>u. u_email u = uc_email user_data) (users d) of
        Some existing_user \<Rightarrow> (d, Inl (HTTPException 400 ''Email already registered''))
      | None \<Rightarrow>
          let user = \<lparr> u_id = se_user_id env,
                       u_email = uc_email user_data,
                       u_password_hash = se_password_hash env,
                       u_full_name = uc_full_name user_data,
                       u_wallet_balance = Fin 0 0,
                       u_total_earned = Fin 0 0,
                       u_ads_watched = 0,
                       u_referral_code = se_referral_code env,
                       u_referred_by = None,
                       u_is_admin = False,
                       u_created_at = se_created_at env \<rparr>;
              (user1, d1) = handle_referral d user (uc_referral_code user_data) env;
              d2 = d1\<lparr>users := insert_one user1 (users d1)\<rparr>
          in (d2, Inr (se_token env, user_response user1)))"

text \<open>
  The record that \<open>signup\<close> constructs at line 184 and inserts at line 211, with the
  \<open>referred_by\<close> that the referral handling left in it.
\<close>

definition new_user :: "UserCreate \<Rightarrow> signup_env \<Rightarrow> string option \<Rightarrow> User" where
  "new_user ud env ref = \<lparr> u_id = se_user_id env, u_email = uc_email ud,
       u_password_hash = se_password_hash env, u_full_name = uc_full_name ud,
       u_wallet_balance = Fin 0 0, u_total_earned = Fin 0 0, u_ads_watched = 0,
       u_referral_code = se_referral_code env, u_referred_by = ref,
       u_is_admin = False, u_created_at = se_created_at env \<rparr>"

subsection \<open>watch\_ad\<close>

record AdWatchCreate =
  ac_ad_type :: string

record watch_env =
  we_ad_id :: string
  we_watched_at :: datetime
  we_tx_id :: string
  we_tx_created_at :: datetime

record WatchAdResponse =
  message :: string
  reward :: amount
  new_balance :: amount

definition watch_ad ::
  "db \<Rightarrow> AdWatchCreate \<Rightarrow> User \<Rightarrow> watch_env \<Rightarrow> db \<times> (HTTPException + WatchAdResponse)" where
  "watch_ad d ad_data current_user env =
     (let reward_amount = Fin 1 (- 1);
          ad_watch = \<lparr> a_id = we_ad_id env,
                       a_user_id = u_id current_user,
                       a_ad_type = ac_ad_type ad_data,
                       a_reward_amount = reward_amount,
                       a_watched_at = we_watched_at env \<rparr>;
          d1 = d\<lparr>users :=
                 update_one (\<lambda>u. u_id u = u_id current_user)
                   (\<lambda>u. u\<lparr>u_wallet_balance := fadd (u_wallet_balance u) reward_amount,
                           u_total_earned := fadd (u_total_earned u) reward_amount,
                           u_ads_watched := u_ads_watched u + 1\<rparr>)
                   (users d)\<rparr>;
          transaction = \<lparr> t_id = we_tx_id env,
                          t_user_id = u_id current_user,
                          t_type = ''ad_reward'',
                          t_amount = reward_amount,
                          t_description =
                            ''Reward for watching '' @ ac_ad_type ad_data @ '' ad'',
                          t_created_at = we_tx_created_at env \<rparr>;
          d2 = d1\<lparr>ad_watches := insert_one ad_watch (ad_watches d1)\<rparr>;
          d3 = d2\<lparr>transactions := insert_one transaction (transactions d2)\<rparr>
      in (d3, Inr \<lparr> message = ''Ad watched successfully!'',
                     reward = reward_amount,
                     new_balance = fadd (u_wallet_balance current_user) reward_amount \<rparr>))"

subsection \<open>Wallet reads and listings\<close>

record BalanceResponse =
  br_balance :: amount
  br_total_earned :: amount
  br_ads_watched :: int

definition get_wallet_balance :: "db \<Rightarrow> User \<Rightarrow> HTTPException + BalanceResponse" where
  "get_wallet_balance d current_user =
     (case find_one (\<lambda>u. u_id u = u_id current_user) (users d) of
        None \<Rightarrow> Inl internal_server_error
      | Some user \<Rightarrow>
          Inr \<lparr> br_balance = u_wallet_balance user,
                br_total_earned = u_total_earned user,
                br_ads_watched = u_ads_watched user \<rparr>)"

text \<open>
  A cursor: \<open>find\<close> keeps the matching documents, \<open>.sort(field, -1)\<close> orders them by
  descending key, \<open>.to_list(n)\<close> keeps the first \<open>n\<close>. The store promises no order among
  documents of equal key; the model keeps their insertion order.
\<close>

definition find_all :: "('a \<Rightarrow> bool) \<Rightarrow> 'a list \<Rightarrow> 'a list" where
  "find_all P xs = filter P xs"

definition sort_desc :: "('a \<Rightarrow> datetime) \<Rightarrow> 'a list \<Rightarrow> 'a list" where
  "sort_desc key xs = rev (sort_key key (rev xs))"

definition to_list :: "nat \<Rightarrow> 'a list \<Rightarrow> 'a list" where
  "to_list n xs = take n xs"

definition get_transactions :: "db \<Rightarrow> User \<Rightarrow> WalletTransaction list" where
  "get_transactions d current_user =
     to_list 100 (sort_desc t_created_at
       (find_all (\<lambda>t. t_user_id t = u_id current_user) (transactions d)))"

definition get_my_withdrawals :: "db \<Rightarrow> User \<Rightarrow> WithdrawalRequest list" where
  "get_my_withdrawals d current_user =
     to_list 100 (sort_desc w_requested_at
       (find_all (\<lambda>w. w_user_id w = u_id current_user) (withdrawals d)))"

record AdminWithdrawal =
  aw_withdrawal :: WithdrawalRequest
  aw_user_name :: string
  aw_user_email :: string

definition get_all_withdrawals :: "db \<Rightarrow> User \<Rightarrow> AdminWithdrawal list" where
  "get_all_withdrawals d admin_user =
     map (\<lambda>w.
            let user = find_one (\<lambda>u. u_id u = w_user_id w) (users d)
            in \<lparr> aw_withdrawal = w,
                 aw_user_name = (case user of Some u \<Rightarrow> u_full_name u | None \<Rightarrow> ''Unknown''),
                 aw_user_email = (case user of Some u \<Rightarrow> u_email u | None \<Rightarrow> ''Unknown'') \<rparr>)
         (to_list 100 (sort_desc w_requested_at (find_all (\<lambda>w. True) (withdrawals d))))"

subsection \<open>request\_withdrawal\<close>

definition request_withdrawal ::
  "db \<Rightarrow> WithdrawalCreate \<Rightarrow> User \<Rightarrow> string \<Rightarrow> datetime \<Rightarrow> db \<times> (HTTPException + string)" where
  "request_withdrawal d withdrawal_data current_user new_id now =
     (if flt (wc_amount withdrawal_data) (Fin 5 1)
      then (d, Inl (HTTPException 400 ''Minimum withdrawal amount is $10''))
      else
        (case find_one (\<lambda>u. u_id u = u_id current_user) (users d) of
           None \<Rightarrow> (d, Inl internal_server_error)
         | Some user \<Rightarrow>
             if flt (u_wallet_balance user) (wc_amount withdrawal_data)
             then (d, Inl (HTTPException 400 ''Insufficient balance''))
             else
               let withdrawal = \<lparr> w_id = new_id,
                                  w_user_id = u_id current_user,
                                  w_amount = wc_amount withdrawal_data,
                                  w_payment_method = wc_payment_method withdrawal_data,
                                  w_payment_id = wc_payment_id withdrawal_data,
                                  w_status = PENDING,
                                  w_requested_at = now,
                                  w_processed_at = None,
                                  w_admin_notes = None \<rparr>;
                   d1 = d\<lparr>users :=
                          update_one (\<lambda>u. u_id u = u_id current_user)
                            (\<lambda>u. u\<lparr>u_wallet_balance :=
                                     fadd (u_wallet_balance u)
                                       (fneg (wc_amount withdrawal_data))\<rparr>)
                            (users d)\<rparr>;
                   d2 = d1\<lparr>withdrawals := insert_one withdrawal (withdrawals d1)\<rparr>
               in (d2, Inr (w_id withdrawal))))"

subsection \<open>update\_withdrawal\<close>

text \<open>
  The \<open>$set\<close> document of line 344: status and \<open>processed_at\<close> always, \<open>admin_notes\<close> when
  the notes are truthy (neither \<open>None\<close> nor empty).
\<close>

definition update_dict :: "WithdrawalUpdate \<Rightarrow> datetime \<Rightarrow> WithdrawalRequest \<Rightarrow> WithdrawalRequest" where
  "update_dict update_data now w =
     (let w1 = w\<lparr>w_status := wu_status update_data, w_processed_at := Some now\<rparr>
      in case wu_admin_notes update_data of
           None \<Rightarrow> w1
         | Some notes \<Rightarrow> if notes = [] then w1 else w1\<lparr>w_admin_notes := Some notes\<rparr>)"

text \<open>
  \<open>update_withdrawal_stores\<close> gives the stores the call passes through, one after each
  write it performs, in order; the response is the new status, which the source wraps
  in the message \<open>Withdrawal <status> successfully\<close>. \<open>update_withdrawal\<close> is the handler:
  the last of these stores, or the store it was given when it wrote nothing.
\<close>

definition update_withdrawal_stores ::
  "db \<Rightarrow> string \<Rightarrow> WithdrawalUpdate \<Rightarrow> User \<Rightarrow> datetime
     \<Rightarrow> db list \<times> (HTTPException + WithdrawalStatus)" where
  "update_withdrawal_stores d withdrawal_id update_data admin_user now =
     (case find_one (\<lambda>w. w_id w = withdrawal_id) (withdrawals d) of
        None \<Rightarrow> ([], Inl (HTTPException 404 ''Withdrawal request not found''))
      | Some withdrawal \<Rightarrow>
          if wu_status update_data = REJECTED
          then
            let d1 = d\<lparr>users :=
                       update_one (\<lambda>u. u_id u = w_user_id withdrawal)
                         (\<lambda>u. u\<lparr>u_wallet_balance :=
                                  fadd (u_wallet_balance u) (w_amount withdrawal)\<rparr>)
                         (users d)\<rparr>;
                d2 = d1\<lparr>withdrawals :=
                        update_one (\<lambda>w. w_id w = withdrawal_id) (update_dict update_data now)
                          (withdrawals d1)\<rparr>
            in ([d1, d2], Inr (wu_status update_data))
          else
            let d2 = d\<lparr>withdrawals :=
                       update_one (\<lambda>w. w_id w = withdrawal_id) (update_dict update_data now)
                         (withdrawals d)\<rparr>
            in ([d2], Inr (wu_status update_data)))"

definition update_withdrawal ::
  "db \<Rightarrow> string \<Rightarrow> WithdrawalUpdate \<Rightarrow> User \<Rightarrow> datetime
     \<Rightarrow> db \<times> (HTTPException + WithdrawalStatus)" where
  "update_withdrawal d withdrawal_id update_data admin_user now =
     (let (stores, res) = update_withdrawal_stores d withdrawal_id update_data admin_user now
      in (last (d # stores), res))"

section \<open>The API as a transition system\<close>

text \<open>
  A request to one of the routes, with the dependency \<open>get_current_user\<close> or
  \<open>get_admin_user\<close> resolved first as the framework does. The routes that only read
  (login, me, balance, transactions, my-requests, admin withdrawals, admin stats) perform
  no write on any collection.
\<close>

datatype request =
    Signup UserCreate signup_env
  | WatchAd credentials AdWatchCreate watch_env
  | RequestWithdrawal credentials WithdrawalCreate string datetime
  | UpdateWithdrawal credentials string WithdrawalUpdate datetime
  | Login
  | Me credentials
  | GetWalletBalance credentials
  | GetTransactions credentials
  | GetMyWithdrawals credentials
  | GetAllWithdrawals credentials
  | GetAdminStats credentials

fun handle :: "db \<Rightarrow> request \<Rightarrow> db" where
  "handle d (Signup user_data env) = fst (signup d user_data env)"
| "handle d (WatchAd cred ad_data env) =
     (case get_current_user d cred of
        Inl e \<Rightarrow> d
      | Inr current_user \<Rightarrow> fst (watch_ad d ad_data current_user env))"
| "handle d (RequestWithdrawal cred withdrawal_data new_id now) =
     (case get_current_user d cred of
        Inl e \<Rightarrow> d
      | Inr current_user \<Rightarrow> fst (request_withdrawal d withdrawal_data current_user new_id now))"
| "handle d (UpdateWithdrawal cred withdrawal_id update_data now) =
     (case get_admin_user d cred of
        Inl e \<Rightarrow> d
      | Inr admin_user \<Rightarrow> fst (update_withdrawal d withdrawal_id update_data admin_user now))"
| "handle d _ = d"

fun run :: "db \<Rightarrow> request list \<Rightarrow> db" where
  "run d [] = d"
| "run d (r # rs) = run (handle d r) rs"

definition sorted_desc :: "('a \<Rightarrow> datetime) \<Rightarrow> 'a list \<Rightarrow> bool" where
  "sorted_desc key xs = sorted_wrt (\<lambda>a b. key b \<le> key a) xs"

section \<open>Concrete stores\<close>

text \<open>
  The doubles nearest to the decimals 10.1, 15.9, 16.4 and 20.9 (what Python's \<open>float\<close>
  gives for them).
\<close>

definition ten_point_one :: double where
  "ten_point_one = Fin 5685794529555251 (- 49)"


definition sixteen_point_four :: double where
  "sixteen_point_four = Fin 2308094809027379 (- 47)"


text \<open>
  Alice has watched 53 ads: balance and total earned are 26.5. The administrator has
  earned nothing. \<open>req1\<close> is a pending request of Alice for 10.0.
\<close>

definition alice :: User where
  "alice = \<lparr> u_id = ''u1'', u_email = ''alice@example.com'', u_password_hash = ''h1'',
             u_full_name = ''Alice'', u_wallet_balance = Fin 53 (- 1),
             u_total_earned = Fin 53 (- 1), u_ads_watched = 53,
             u_referral_code = ''ALICE123'', u_referred_by = None,
             u_is_admin = False, u_created_at = 10 \<rparr>"

definition root_user :: User where
  "root_user = \<lparr> u_id = ''u0'', u_email = ''root@example.com'', u_password_hash = ''h0'',
             u_full_name = ''Root'', u_wallet_balance = Fin 0 0, u_total_earned = Fin 0 0,
             u_ads_watched = 0, u_referral_code = ''ROOT0000'', u_referred_by = None,
             u_is_admin = True, u_created_at = 5 \<rparr>"

definition req1 :: WithdrawalRequest where
  "req1 = \<lparr> w_id = ''w1'', w_user_id = ''u1'', w_amount = Fin 5 1, w_payment_method = ESEWA,
            w_payment_id = ''es-1'', w_status = PENDING, w_requested_at = 100,
            w_processed_at = None, w_admin_notes = None \<rparr>"

definition example_db :: db where
  "example_db = \<lparr> users = [root_user, alice], ad_watches = [], transactions = [],
                  withdrawals = [req1] \<rparr>"

definition req_approved :: WithdrawalRequest where
  "req_approved = \<lparr> w_id = ''w1'', w_user_id = ''u1'', w_amount = Fin 5 1,
            w_payment_method = ESEWA, w_payment_id = ''es-1'', w_status = APPROVED,
            w_requested_at = 100, w_processed_at = Some 150, w_admin_notes = None \<rparr>"

definition req_rejected :: WithdrawalRequest where
  "req_rejected = \<lparr> w_id = ''w1'', w_user_id = ''u1'', w_amount = Fin 5 1,
            w_payment_method = ESEWA, w_payment_id = ''es-1'', w_status = REJECTED,
            w_requested_at = 100, w_processed_at = Some 150, w_admin_notes = None \<rparr>"

definition approved_db :: db where
  "approved_db = \<lparr> users = [root_user, alice], ad_watches = [], transactions = [],
                  withdrawals = [req_approved] \<rparr>"

definition rejected_db :: db where
  "rejected_db = \<lparr> users = [root_user, alice], ad_watches = [], transactions = [],
                  withdrawals = [req_rejected] \<rparr>"

text \<open>
  \<open>plain_db\<close> holds the two users and no request. In \<open>reserved_db\<close> Alice has requested
  10.1 of her 26.5: her balance is 16.4 and the request is pending. In \<open>drained_db\<close> she
  had watched 52 ads (26.0) when she requested 10.1: her balance is 15.9.
\<close>

definition plain_db :: db where
  "plain_db = \<lparr> users = [root_user, alice], ad_watches = [], transactions = [],
                withdrawals = [] \<rparr>"

definition req_101 :: WithdrawalRequest where
  "req_101 = \<lparr> w_id = ''w1'', w_user_id = ''u1'', w_amount = ten_point_one,
            w_payment_method = ESEWA, w_payment_id = ''es-1'', w_status = PENDING,
            w_requested_at = 100, w_processed_at = None, w_admin_notes = None \<rparr>"

definition reserved_db :: db where
  "reserved_db = \<lparr> users = [root_user, alice\<lparr>u_wallet_balance := sixteen_point_four\<rparr>],
                   ad_watches = [], transactions = [], withdrawals = [req_101] \<rparr>"



definition watch_env1 :: watch_env where
  "watch_env1 = \<lparr> we_ad_id = ''a1'', we_watched_at = 400, we_tx_id = ''t1'', we_tx_created_at = 401 \<rparr>"

definition signup_env1 :: signup_env where
  "signup_env1 = \<lparr> se_user_id = ''u2'', se_referral_code = ''BOB45678'', se_created_at = 500,
                   se_password_hash = ''h2'', se_tx_id = ''t2'', se_tx_created_at = 501,
                   se_token = ''tok2'' \<rparr>"

definition bob_create :: "string option \<Rightarrow> UserCreate" where
  "bob_create code = \<lparr> uc_email = ''bob@example.com'', uc_password = ''pw'',
                        uc_full_name = ''Bob'', uc_referral_code = code \<rparr>"

definition empty_db :: db where
  "empty_db = \<lparr> users = [], ad_watches = [], transactions = [], withdrawals = [] \<rparr>"

definition tx :: "string \<Rightarrow> string \<Rightarrow> datetime \<Rightarrow> WalletTransaction" where
  "tx i uid time = \<lparr> t_id = i, t_user_id = uid, t_type = ''ad_reward'', t_amount = Fin 1 (- 1),
                   t_description = ''Reward for watching video ad'', t_created_at = time \<rparr>"

definition ledger_db :: db where
  "ledger_db = \<lparr> users = [root_user, alice], ad_watches = [],
                 transactions = [tx ''t1'' ''u1'' 10, tx ''t2'' ''u0'' 40,
                                 tx ''t3'' ''u1'' 30, tx ''t4'' ''u1'' 20],
                 withdrawals = [] \<rparr>"

definition crowded_db :: db where
  "crowded_db = \<lparr> users = [root_user, alice], ad_watches = [],
                  transactions = replicate 150 (tx ''t1'' ''u1'' 10),
                  withdrawals = replicate 120 req1 \<rparr>"

section \<open>Facts about doubles\<close>

lemmas double_eval = round_double_def finish_def round_half_even_div_def Let_def

text \<open>The literals of the source and the decimals of the examples.\<close>

lemma val_literals:
  "val (Fin 0 0) = Some 0" "val (Fin 1 (- 1)) = Some (1 / 2)" "val (Fin 5 0) = Some 5"
  "val (Fin 5 1) = Some 10" "val (Fin 53 (- 1)) = Some (53 / 2)" "val (Fin 13 1) = Some 26"
  by simp_all

lemma nearest_decimals:
  "\<bar>101 / 10 - 5685794529555251 / 2 ^ 49\<bar> \<le> (1 / 2 ^ 50 :: rat)"
  "\<bar>159 / 10 - 8950904259398861 / 2 ^ 49\<bar> \<le> (1 / 2 ^ 50 :: rat)"
  "\<bar>164 / 10 - 2308094809027379 / 2 ^ 47\<bar> \<le> (1 / 2 ^ 48 :: rat)"
  "\<bar>209 / 10 - 2941413506626355 / 2 ^ 47\<bar> \<le> (1 / 2 ^ 48 :: rat)"
  by simp_all

text \<open>
  Sums that are exact, sums that round (a tie goes to the even significand), overflow,
  subnormals, and the special values.
\<close>

lemma fadd_examples:
  "fadd (Fin 1 (- 1)) (Fin 1 (- 1)) = Fin 1 0"
  "fadd (Fin 53 (- 1)) (Fin 5 1) = Fin 73 (- 1)"
  "fadd (Fin 53 (- 1)) (fneg (Fin 5 1)) = Fin 33 (- 1)"
  "fadd (Fin 1 53) (Fin 1 0) = Fin 1 53"
  "fadd (Fin 4503599627370497 1) (Fin 1 0) = Fin 2251799813685249 2"
  "fadd (Fin 1 1023) (Fin 1 1023) = PInf"
  "fadd (Fin 1 (- 1074)) (Fin 1 (- 1074)) = Fin 1 (- 1073)"
  "fadd PInf NInf = NaN" "fadd NaN (Fin 1 0) = NaN" "fadd (Fin 1 0) (fneg NaN) = NaN"
  by (simp_all add: double_eval)

lemma withdraw_101_of_265:
  "fadd (Fin 53 (- 1)) (fneg ten_point_one) = sixteen_point_four"
  by (simp add: ten_point_one_def sixteen_point_four_def double_eval)


lemma refund_101_to_164:
  "fadd sixteen_point_four ten_point_one = Fin 53 (- 1)"
  by (simp add: ten_point_one_def sixteen_point_four_def double_eval)



lemma fadd_commute: "fadd a b = fadd b a"
  by (cases a; cases b) (simp_all add: min.commute add.commute)

lemma nan_comparisons:
  "\<not> flt NaN x" "\<not> flt x NaN" "\<not> fle NaN x" "\<not> fle x NaN"
  by (cases x; simp)+

lemma fle_not_flt: "fle a b \<Longrightarrow> \<not> flt b a"
proof (cases a; cases b)
  fix m1 e1 m2 e2
  assume "a = Fin m1 e1" "b = Fin m2 e2" "fle a b"
  then show "\<not> flt b a"
    by (simp add: Let_def min.commute)
qed simp_all

section \<open>Facts about the store\<close>

lemma find_one_Some_holds: "find_one P xs = Some x \<Longrightarrow> P x"
  by (induction xs) (auto split: if_splits)


lemma get_current_user_stored:
  assumes "get_current_user d cred = Inr cu"
  shows "find_one (\<lambda>u. u_id u = u_id cu) (users d) = Some cu"
proof -
  from assms obtain user_id where
    f: "find_one (\<lambda>u. u_id u = user_id) (users d) = Some cu"
    by (auto simp: get_current_user_def split: credentials.splits option.splits)
  from find_one_Some_holds [OF f] have "u_id cu = user_id" .
  with f show ?thesis by simp
qed

lemma find_one_update_one_same:
  assumes "find_one P xs = Some x" and "\<And>y. P (f y) = P y"
  shows "find_one P (update_one P f xs) = Some (f x)"
  using assms by (induction xs) (auto split: if_splits)

lemma find_one_update_one_other:
  assumes "\<And>y. Q (f y) = Q y" and "\<And>y. P y \<Longrightarrow> \<not> Q y"
  shows "find_one Q (update_one P f xs) = find_one Q xs"
  using assms by (induction xs) auto

lemma update_one_None: "find_one P xs = None \<Longrightarrow> update_one P f xs = xs"
  by (induction xs) (auto split: if_splits)


lemma set_update_one:
  "find_one P xs = Some x \<Longrightarrow> set (update_one P f xs) \<subseteq> insert (f x) (set xs)"
  by (induction xs) (auto split: if_splits)


lemma update_dict_fields:
  "w_status (update_dict upd now w) = wu_status upd"
  "w_processed_at (update_dict upd now w) = Some now"
  "w_id (update_dict upd now w) = w_id w"
  "w_user_id (update_dict upd now w) = w_user_id w"
  "w_amount (update_dict upd now w) = w_amount w"
  "w_requested_at (update_dict upd now w) = w_requested_at w"
  by (simp_all add: update_dict_def Let_def split: option.splits)

lemma update_withdrawal_found:
  assumes "find_one (\<lambda>w. w_id w = wid) (withdrawals d) = Some w"
  shows "update_withdrawal d wid upd admin now =
           (d\<lparr>users := (if wu_status upd = REJECTED
                         then update_one (\<lambda>u. u_id u = w_user_id w)
                                (\<lambda>u. u\<lparr>u_wallet_balance := fadd (u_wallet_balance u) (w_amount w)\<rparr>)
                                (users d)
                         else users d),
               withdrawals := update_one (\<lambda>w. w_id w = wid) (update_dict upd now) (withdrawals d)\<rparr>,
            Inr (wu_status upd))"
  using assms by (simp add: update_withdrawal_def update_withdrawal_stores_def Let_def)

lemma find_withdrawal_updated:
  assumes "find_one (\<lambda>w. w_id w = wid) ws = Some w"
  shows "find_one (\<lambda>w. w_id w = wid) (update_one (\<lambda>w. w_id w = wid) (update_dict upd now) ws)
           = Some (update_dict upd now w)"
  by (rule find_one_update_one_same [OF assms]) (simp add: update_dict_fields)

lemma find_user_credited:
  assumes "find_one (\<lambda>u. u_id u = uid) us = Some u"
  shows "find_one (\<lambda>u. u_id u = uid)
           (update_one (\<lambda>u. u_id u = uid) (\<lambda>u. u\<lparr>u_wallet_balance := fadd (u_wallet_balance u) a\<rparr>) us)
         = Some (u\<lparr>u_wallet_balance := fadd (u_wallet_balance u) a\<rparr>)"
  by (rule find_one_update_one_same [OF assms]) simp

lemma find_user_other:
  assumes "uid' \<noteq> uid" and "\<And>y. u_id (f y) = u_id y"
  shows "find_one (\<lambda>u. u_id u = uid') (update_one (\<lambda>u. u_id u = uid) f us)
         = find_one (\<lambda>u. u_id u = uid') us"
  by (rule find_one_update_one_other) (use assms in auto)

lemma auth_alice: "get_current_user example_db (Payload (Some ''u1'')) = Inr alice"
  by (simp add: get_current_user_def example_db_def root_user_def alice_def)

lemma find_req1: "find_one (\<lambda>w. w_id w = ''w1'') (withdrawals example_db) = Some req1"
  by (simp add: example_db_def req1_def)

lemma find_req_rejected:
  "find_one (\<lambda>w. w_id w = ''w1'') (withdrawals rejected_db) = Some req_rejected"
  by (simp add: rejected_db_def req_rejected_def)

lemma find_user_ad_credited:
  assumes "find_one (\<lambda>u. u_id u = uid) us = Some u"
  shows "find_one (\<lambda>u. u_id u = uid)
           (update_one (\<lambda>u. u_id u = uid)
              (\<lambda>u. u\<lparr>u_wallet_balance := fadd (u_wallet_balance u) a,
                      u_total_earned := fadd (u_total_earned u) b,
                      u_ads_watched := u_ads_watched u + c\<rparr>) us)
         = Some (u\<lparr>u_wallet_balance := fadd (u_wallet_balance u) a,
                   u_total_earned := fadd (u_total_earned u) b,
                   u_ads_watched := u_ads_watched u + c\<rparr>)"
  by (rule find_one_update_one_same [OF assms]) simp





lemma signup_no_referrer:
  assumes "find_one (\<lambda>u. u_email u = uc_email ud) (users d) = None"
      and "\<not> (\<exists>c r. uc_referral_code ud = Some c \<and> c \<noteq> []
                 \<and> find_one (\<lambda>u. u_referral_code u = c) (users d) = Some r)"
  shows "signup d ud env =
    (d\<lparr>users := users d @ [new_user ud env None]\<rparr>,
     Inr (se_token env, user_response (new_user ud env None)))"
  using assms
  by (auto simp: signup_def handle_referral_def Let_def insert_one_def new_user_def
           split: option.splits)


lemma sorted_desc_sort_desc: "sorted_desc key (sort_desc key xs)"
proof -
  have "sorted (map key (sort_key key (rev xs)))" by (rule sorted_sort_key)
  then show ?thesis
    by (simp add: sorted_desc_def sort_desc_def sorted_wrt_rev sorted_map)
qed

lemma sorted_desc_to_list: "sorted_desc key xs \<Longrightarrow> sorted_desc key (to_list n xs)"
  by (simp add: sorted_desc_def to_list_def sorted_wrt_take)

lemma length_sort_desc: "length (sort_desc key xs) = length xs"
  by (simp add: sort_desc_def)

lemma set_sort_desc: "set (sort_desc key xs) = set xs"
  by (simp add: sort_desc_def)

lemma length_listing:
  "length (to_list n (sort_desc key (find_all P xs))) = min n (length (filter P xs))"
  by (simp add: to_list_def length_sort_desc find_all_def min.commute)

lemma set_listing:
  "set (to_list n (sort_desc key (find_all P xs))) \<subseteq> {x \<in> set xs. P x}"
proof -
  have "set (to_list n (sort_desc key (find_all P xs))) \<subseteq> set (sort_desc key (find_all P xs))"
    by (simp add: to_list_def set_take_subset)
  then show ?thesis by (simp add: set_sort_desc find_all_def)
qed

lemma transactions_signup:
  "transactions (fst (signup d ud env)) = transactions d
   \<or> (\<exists>t. transactions (fst (signup d ud env)) = transactions d @ [t]
          \<and> t_type t = ''referral_bonus'')"
  by (simp add: signup_def handle_referral_def Let_def insert_one_def
           split: option.splits)

lemma transactions_watch_ad:
  "\<exists>t. transactions (fst (watch_ad d ad cu env)) = transactions d @ [t]
          \<and> t_type t = ''ad_reward''"
  by (simp add: watch_ad_def Let_def insert_one_def)

lemma transactions_request_withdrawal:
  "transactions (fst (request_withdrawal d wd cu new_id now)) = transactions d"
  by (simp add: request_withdrawal_def Let_def split: option.splits)

lemma transactions_update_withdrawal:
  "transactions (fst (update_withdrawal d wid upd admin now)) = transactions d"
  by (simp add: update_withdrawal_def update_withdrawal_stores_def Let_def split: option.splits)

lemma find_req_approved:
  "find_one (\<lambda>w. w_id w = ''w1'') (withdrawals approved_db) = Some req_approved"
  by (simp add: approved_db_def req_approved_def)

section \<open>Claims\<close>

text \<open>
  C1. For an authenticated caller, a withdrawal request below the minimum 10 fails with
  the below-minimum error 400 whatever the balance is (the minimum is checked first);
  a request that is not below 10 and that the caller's stored wallet balance is below
  fails with the insufficient-balance error 400. In both cases the store after the call
  is the store before it: no balance changes and no withdrawal request is created.
\<close>

theorem request_withdrawal_rejected:
  assumes "get_current_user d cred = Inr cu"
  shows "find_one (\<lambda>u. u_id u = u_id cu) (users d) = Some cu
       \<and> (flt (wc_amount wd) (Fin 5 1) \<longrightarrow>
            request_withdrawal d wd cu new_id now =
              (d, Inl (HTTPException 400 ''Minimum withdrawal amount is $10'')))
       \<and> (\<not> flt (wc_amount wd) (Fin 5 1) \<and> flt (u_wallet_balance cu) (wc_amount wd) \<longrightarrow>
            request_withdrawal d wd cu new_id now =
              (d, Inl (HTTPException 400 ''Insufficient balance'')))"
  using get_current_user_stored [OF assms]
  by (simp add: request_withdrawal_def)

theorem request_withdrawal_rejected_witness:
  "request_withdrawal example_db
     \<lparr>wc_amount = Fin 5 0, wc_payment_method = ESEWA, wc_payment_id = ''p''\<rparr> alice ''w2'' 200
     = (example_db, Inl (HTTPException 400 ''Minimum withdrawal amount is $10''))
   \<and> request_withdrawal example_db
     \<lparr>wc_amount = Fin 25 1, wc_payment_method = ESEWA, wc_payment_id = ''p''\<rparr> alice ''w2'' 200
     = (example_db, Inl (HTTPException 400 ''Insufficient balance''))"
  using request_withdrawal_rejected [OF auth_alice,
          of "\<lparr>wc_amount = Fin 5 0, wc_payment_method = ESEWA, wc_payment_id = ''p''\<rparr>" "''w2''" 200]
        request_withdrawal_rejected [OF auth_alice,
          of "\<lparr>wc_amount = Fin 25 1, wc_payment_method = ESEWA, wc_payment_id = ''p''\<rparr>" "''w2''" 200]
  by (simp add: alice_def Let_def)

text \<open>
  C2 as stated fails: the debit is a double-precision addition and rounds. Alice holds
  26.5 and requests 10.1, which is at least 10.0 and at most her balance; the request
  succeeds and her stored balance becomes 16.4, so that it has gone down by
  10.100000000000001 and not by the amount of the request.
\<close>

theorem exact_debit_counterexample:
  "get_current_user plain_db (Payload (Some ''u1'')) = Inr alice
   \<and> fle (Fin 5 1) ten_point_one \<and> fle ten_point_one (u_wallet_balance alice)
   \<and> request_withdrawal plain_db
        \<lparr>wc_amount = ten_point_one, wc_payment_method = ESEWA, wc_payment_id = ''es-1''\<rparr>
        alice ''w1'' 100 = (reserved_db, Inr ''w1'')
   \<and> find_one (\<lambda>u. u_id u = ''u1'') (users reserved_db) =
        Some (alice\<lparr>u_wallet_balance := sixteen_point_four\<rparr>)
   \<and> val (u_wallet_balance alice) = Some (53 / 2)
   \<and> val sixteen_point_four = Some (2308094809027379 / 2 ^ 47)
   \<and> val ten_point_one = Some (5685794529555251 / 2 ^ 49)
   \<and> (53 / 2 - 2308094809027379 / 2 ^ 47 :: rat) \<noteq> 5685794529555251 / 2 ^ 49"
proof -
  have auth: "get_current_user plain_db (Payload (Some ''u1'')) = Inr alice"
    by (simp add: get_current_user_def plain_db_def root_user_def alice_def)
  have guards: "fle (Fin 5 1) ten_point_one" "fle ten_point_one (u_wallet_balance alice)"
    by (simp_all add: ten_point_one_def alice_def Let_def)
  have bal: "u_wallet_balance alice = Fin 53 (- 1)" by (simp add: alice_def)
  have call: "request_withdrawal plain_db
        \<lparr>wc_amount = ten_point_one, wc_payment_method = ESEWA, wc_payment_id = ''es-1''\<rparr>
        alice ''w1'' 100 = (reserved_db, Inr ''w1'')"
    using fle_not_flt [OF guards(1)] fle_not_flt [OF guards(2)]
    by (simp add: request_withdrawal_def Let_def insert_one_def plain_db_def reserved_db_def
          req_101_def root_user_def bal withdraw_101_of_265)
       (simp add: alice_def)
  have found: "find_one (\<lambda>u. u_id u = ''u1'') (users reserved_db) =
        Some (alice\<lparr>u_wallet_balance := sixteen_point_four\<rparr>)"
    by (simp add: reserved_db_def root_user_def alice_def)
  have vals: "val (u_wallet_balance alice) = Some (53 / 2)"
    "val sixteen_point_four = Some (2308094809027379 / 2 ^ 47)"
    "val ten_point_one = Some (5685794529555251 / 2 ^ 49)"
    "(53 / 2 - 2308094809027379 / 2 ^ 47 :: rat) \<noteq> 5685794529555251 / 2 ^ 49"
    by (simp_all add: alice_def sixteen_point_four_def ten_point_one_def)
  from auth guards call found vals show ?thesis by blast
qed

text \<open>
  C2, as the code has it. For an authenticated caller, a withdrawal request whose amount
  is at least 10.0 and at most the caller's stored wallet balance succeeds: the caller's
  stored balance becomes the double-precision sum of the balance and the negated amount
  (the \<open>$inc\<close> by \<open>-amount\<close>), every other user's record is as before, exactly one withdrawal
  request is appended, in status pending, with the caller's id, the amount, the payment
  method and the payment id, and the response carries that request's id.
\<close>

theorem request_withdrawal_accepted:
  assumes "get_current_user d cred = Inr cu"
      and "fle (Fin 5 1) (wc_amount wd)" and "fle (wc_amount wd) (u_wallet_balance cu)"
  shows "\<exists>d'. request_withdrawal d wd cu new_id now = (d', Inr new_id)
       \<and> find_one (\<lambda>u. u_id u = u_id cu) (users d') =
           Some (cu\<lparr>u_wallet_balance := fadd (u_wallet_balance cu) (fneg (wc_amount wd))\<rparr>)
       \<and> (\<forall>uid. uid \<noteq> u_id cu \<longrightarrow>
             find_one (\<lambda>u. u_id u = uid) (users d') = find_one (\<lambda>u. u_id u = uid) (users d))
       \<and> withdrawals d' = withdrawals d @
           [\<lparr> w_id = new_id, w_user_id = u_id cu, w_amount = wc_amount wd,
              w_payment_method = wc_payment_method wd, w_payment_id = wc_payment_id wd,
              w_status = PENDING, w_requested_at = now, w_processed_at = None,
              w_admin_notes = None \<rparr>]"
proof -
  have stored: "find_one (\<lambda>u. u_id u = u_id cu) (users d) = Some cu"
    by (rule get_current_user_stored [OF assms(1)])
  let ?f = "\<lambda>u. u\<lparr>u_wallet_balance := fadd (u_wallet_balance u) (fneg (wc_amount wd))\<rparr>"
  have same: "find_one (\<lambda>u. u_id u = u_id cu) (update_one (\<lambda>u. u_id u = u_id cu) ?f (users d))
      = Some (?f cu)"
    by (rule find_one_update_one_same [OF stored]) simp
  have other: "find_one (\<lambda>u. u_id u = uid) (update_one (\<lambda>u. u_id u = u_id cu) ?f (users d))
      = find_one (\<lambda>u. u_id u = uid) (users d)" if "uid \<noteq> u_id cu" for uid
    by (rule find_one_update_one_other) (use that in auto)
  show ?thesis
    using fle_not_flt [OF assms(2)] fle_not_flt [OF assms(3)] stored same other
    by (simp add: request_withdrawal_def Let_def insert_one_def)
qed

theorem request_withdrawal_accepted_witness:
  "\<exists>d'. request_withdrawal example_db
           \<lparr>wc_amount = Fin 5 1, wc_payment_method = KHALTI, wc_payment_id = ''k-7''\<rparr>
           alice ''w2'' 200 = (d', Inr ''w2'')
       \<and> find_one (\<lambda>u. u_id u = ''u1'') (users d') =
            Some (alice\<lparr>u_wallet_balance := Fin 33 (- 1)\<rparr>)
       \<and> withdrawals d' =
           [req1, \<lparr> w_id = ''w2'', w_user_id = ''u1'', w_amount = Fin 5 1,
              w_payment_method = KHALTI, w_payment_id = ''k-7'',
              w_status = PENDING, w_requested_at = 200, w_processed_at = None,
              w_admin_notes = None \<rparr>]"
proof -
  let ?wd = "\<lparr>wc_amount = Fin 5 1, wc_payment_method = KHALTI, wc_payment_id = ''k-7''\<rparr>"
  have lo: "fle (Fin 5 1) (wc_amount ?wd)" and hi: "fle (wc_amount ?wd) (u_wallet_balance alice)"
    by (simp_all add: alice_def Let_def)
  have sum: "fadd (u_wallet_balance alice) (fneg (wc_amount ?wd)) = Fin 33 (- 1)"
    by (simp add: alice_def double_eval)
  from request_withdrawal_accepted [OF auth_alice lo hi, of "''w2''" 200]
  obtain d' where
    "request_withdrawal example_db ?wd alice ''w2'' 200 = (d', Inr ''w2'')"
    "find_one (\<lambda>u. u_id u = u_id alice) (users d') =
       Some (alice\<lparr>u_wallet_balance := fadd (u_wallet_balance alice) (fneg (wc_amount ?wd))\<rparr>)"
    "withdrawals d' = withdrawals example_db @
       [\<lparr> w_id = ''w2'', w_user_id = u_id alice, w_amount = wc_amount ?wd,
          w_payment_method = wc_payment_method ?wd, w_payment_id = wc_payment_id ?wd,
          w_status = PENDING, w_requested_at = 200, w_processed_at = None,
          w_admin_notes = None \<rparr>]"
    by blast
  then show ?thesis
    unfolding sum by (intro exI [of _ d']) (simp add: alice_def example_db_def)
qed

text \<open>
  C3 as stated fails: the refund is a double-precision addition and rounds. The pending
  request of \<open>reserved_db\<close> records the amount 10.1 and its owner holds 16.4; rejecting it
  stores the balance 26.5, an increase of 10.100000000000001 and not of the recorded
  amount.
\<close>

theorem exact_refund_counterexample:
  "find_one (\<lambda>w. w_id w = ''w1'') (withdrawals reserved_db) = Some req_101
   \<and> w_amount req_101 = ten_point_one
   \<and> find_one (\<lambda>u. u_id u = w_user_id req_101) (users reserved_db) =
        Some (alice\<lparr>u_wallet_balance := sixteen_point_four\<rparr>)
   \<and> update_withdrawal reserved_db ''w1'' \<lparr>wu_status = REJECTED, wu_admin_notes = None\<rparr>
        root_user 300
      = (\<lparr> users = [root_user, alice], ad_watches = [], transactions = [],
           withdrawals = [req_101\<lparr>w_status := REJECTED, w_processed_at := Some 300\<rparr>] \<rparr>,
         Inr REJECTED)
   \<and> val (u_wallet_balance alice) = Some (53 / 2)
   \<and> val sixteen_point_four = Some (2308094809027379 / 2 ^ 47)
   \<and> val ten_point_one = Some (5685794529555251 / 2 ^ 49)
   \<and> (53 / 2 - 2308094809027379 / 2 ^ 47 :: rat) \<noteq> 5685794529555251 / 2 ^ 49"
proof -
  have req: "find_one (\<lambda>w. w_id w = ''w1'') (withdrawals reserved_db) = Some req_101"
    "w_amount req_101 = ten_point_one"
    by (simp_all add: reserved_db_def req_101_def)
  have owner: "find_one (\<lambda>u. u_id u = w_user_id req_101) (users reserved_db) =
        Some (alice\<lparr>u_wallet_balance := sixteen_point_four\<rparr>)"
    by (simp add: reserved_db_def req_101_def root_user_def alice_def)
  have again: "alice\<lparr>u_wallet_balance := Fin 53 (- 1)\<rparr> = alice"
    by (simp add: alice_def)
  have uid: "u_id alice = ''u1''" by (simp add: alice_def)
  have call: "update_withdrawal reserved_db ''w1'' \<lparr>wu_status = REJECTED, wu_admin_notes = None\<rparr>
        root_user 300
      = (\<lparr> users = [root_user, alice], ad_watches = [], transactions = [],
           withdrawals = [req_101\<lparr>w_status := REJECTED, w_processed_at := Some 300\<rparr>] \<rparr>,
         Inr REJECTED)"
    unfolding update_withdrawal_found [OF req(1)]
    by (simp add: reserved_db_def req_101_def root_user_def refund_101_to_164 again
          update_dict_def uid)
  have vals: "val (u_wallet_balance alice) = Some (53 / 2)"
    "val sixteen_point_four = Some (2308094809027379 / 2 ^ 47)"
    "val ten_point_one = Some (5685794529555251 / 2 ^ 49)"
    "(53 / 2 - 2308094809027379 / 2 ^ 47 :: rat) \<noteq> 5685794529555251 / 2 ^ 49"
    by (simp_all add: alice_def sixteen_point_four_def ten_point_one_def)
  from req owner call vals show ?thesis by blast
qed

text \<open>
  C3, as the code has it. Processing an existing withdrawal request is accepted and leaves
  the request with the new status and with \<open>processed_at\<close> set to the current time. When the
  new status is rejected, the owner's stored balance becomes the double-precision sum of
  the balance and the amount recorded in the request, no other user changes, and the call
  passes through an intermediate store in which the refund is already applied while the
  withdrawals collection is still as before. When the new status is approved, the users
  collection is unchanged and the status update is the only write.
\<close>

theorem update_withdrawal_effect:
  assumes "find_one (\<lambda>w. w_id w = wid) (withdrawals d) = Some w"
  shows "\<exists>d'. update_withdrawal d wid upd admin now = (d', Inr (wu_status upd))
      \<and> find_one (\<lambda>w. w_id w = wid) (withdrawals d') = Some (update_dict upd now w)
      \<and> w_status (update_dict upd now w) = wu_status upd
      \<and> w_processed_at (update_dict upd now w) = Some now
      \<and> (wu_status upd = REJECTED \<longrightarrow>
            (\<forall>u. find_one (\<lambda>u. u_id u = w_user_id w) (users d) = Some u \<longrightarrow>
                 find_one (\<lambda>u. u_id u = w_user_id w) (users d') =
                   Some (u\<lparr>u_wallet_balance := fadd (u_wallet_balance u) (w_amount w)\<rparr>))
          \<and> (\<forall>uid. uid \<noteq> w_user_id w \<longrightarrow>
                 find_one (\<lambda>u. u_id u = uid) (users d') = find_one (\<lambda>u. u_id u = uid) (users d))
          \<and> (\<exists>d1. fst (update_withdrawal_stores d wid upd admin now) = [d1, d']
                 \<and> users d1 = users d' \<and> withdrawals d1 = withdrawals d))
      \<and> (wu_status upd = APPROVED \<longrightarrow>
            users d' = users d \<and> fst (update_withdrawal_stores d wid upd admin now) = [d'])"
proof -
  let ?d' = "fst (update_withdrawal d wid upd admin now)"
  note eq = update_withdrawal_found [OF assms, of upd admin now]
  have res: "update_withdrawal d wid upd admin now = (?d', Inr (wu_status upd))"
    by (simp add: eq)
  have wd: "find_one (\<lambda>w. w_id w = wid) (withdrawals ?d') = Some (update_dict upd now w)"
    by (simp add: eq find_withdrawal_updated [OF assms])
  have rej: "find_one (\<lambda>u. u_id u = w_user_id w) (users ?d') =
               Some (u\<lparr>u_wallet_balance := fadd (u_wallet_balance u) (w_amount w)\<rparr>)"
    if "wu_status upd = REJECTED" "find_one (\<lambda>u. u_id u = w_user_id w) (users d) = Some u" for u
    using that by (simp add: eq find_user_credited)
  have oth: "find_one (\<lambda>u. u_id u = uid) (users ?d') = find_one (\<lambda>u. u_id u = uid) (users d)"
    if "uid \<noteq> w_user_id w" for uid
    using that by (simp add: eq find_user_other)
  have tr: "\<exists>d1. fst (update_withdrawal_stores d wid upd admin now) = [d1, ?d']
                 \<and> users d1 = users ?d' \<and> withdrawals d1 = withdrawals d"
    if "wu_status upd = REJECTED"
    using that assms by (simp add: eq update_withdrawal_stores_def Let_def)
  have app: "users ?d' = users d \<and> fst (update_withdrawal_stores d wid upd admin now) = [?d']"
    if "wu_status upd = APPROVED"
    using that assms by (simp add: eq update_withdrawal_stores_def Let_def)
  from res wd rej oth tr app show ?thesis
    by (intro exI [of _ ?d']) (simp add: update_dict_fields)
qed

theorem update_withdrawal_effect_witness:
  "(\<exists>d'. update_withdrawal example_db ''w1'' \<lparr>wu_status = REJECTED, wu_admin_notes = None\<rparr> root_user 300
           = (d', Inr REJECTED)
       \<and> find_one (\<lambda>w. w_id w = ''w1'') (withdrawals d') =
           Some (req1\<lparr>w_status := REJECTED, w_processed_at := Some 300\<rparr>)
       \<and> find_one (\<lambda>u. u_id u = ''u1'') (users d') = Some (alice\<lparr>u_wallet_balance := Fin 73 (- 1)\<rparr>)
       \<and> find_one (\<lambda>u. u_id u = ''u0'') (users d') = Some root_user)
   \<and> (\<exists>d'. update_withdrawal example_db ''w1'' \<lparr>wu_status = APPROVED, wu_admin_notes = Some ''paid''\<rparr> root_user 300
           = (d', Inr APPROVED)
       \<and> find_one (\<lambda>w. w_id w = ''w1'') (withdrawals d') =
           Some (req1\<lparr>w_status := APPROVED, w_processed_at := Some 300, w_admin_notes := Some ''paid''\<rparr>)
       \<and> users d' = [root_user, alice])"
proof -
  have a: "find_one (\<lambda>u. u_id u = ''u1'') (users example_db) = Some alice"
    by (simp add: example_db_def alice_def root_user_def)
  have b: "find_one (\<lambda>u. u_id u = ''u0'') (users example_db) = Some root_user"
    by (simp add: example_db_def alice_def root_user_def)
  have r: "w_user_id req1 = ''u1''" "w_amount req1 = Fin 5 1" by (simp_all add: req1_def)
  have sum: "fadd (u_wallet_balance alice) (Fin 5 1) = Fin 73 (- 1)"
    by (simp add: alice_def double_eval)
  from update_withdrawal_effect [OF find_req1,
          of "\<lparr>wu_status = REJECTED, wu_admin_notes = None\<rparr>" root_user 300]
  have 1: "(\<exists>d'. update_withdrawal example_db ''w1'' \<lparr>wu_status = REJECTED, wu_admin_notes = None\<rparr> root_user 300
           = (d', Inr REJECTED)
       \<and> find_one (\<lambda>w. w_id w = ''w1'') (withdrawals d') =
           Some (req1\<lparr>w_status := REJECTED, w_processed_at := Some 300\<rparr>)
       \<and> find_one (\<lambda>u. u_id u = ''u1'') (users d') = Some (alice\<lparr>u_wallet_balance := Fin 73 (- 1)\<rparr>)
       \<and> find_one (\<lambda>u. u_id u = ''u0'') (users d') = Some root_user)"
    using a b by (auto simp: r update_dict_def sum)
  from update_withdrawal_effect [OF find_req1,
          of "\<lparr>wu_status = APPROVED, wu_admin_notes = Some ''paid''\<rparr>" root_user 300]
  have 2: "(\<exists>d'. update_withdrawal example_db ''w1'' \<lparr>wu_status = APPROVED, wu_admin_notes = Some ''paid''\<rparr> root_user 300
           = (d', Inr APPROVED)
       \<and> find_one (\<lambda>w. w_id w = ''w1'') (withdrawals d') =
           Some (req1\<lparr>w_status := APPROVED, w_processed_at := Some 300, w_admin_notes := Some ''paid''\<rparr>)
       \<and> users d' = [root_user, alice])"
    by (auto simp: update_dict_def example_db_def)
  from 1 2 show ?thesis by blast
qed

text \<open>
  C4 as stated fails: an approved request is moved to rejected and its owner credited
  (balance 26.5 becomes 36.5), and a rejected request processed as rejected once more is
  refunded a second time.
\<close>

theorem terminal_state_counterexample:
  "withdrawals approved_db = [req_approved] \<and> w_status req_approved = APPROVED
   \<and> update_withdrawal approved_db ''w1'' \<lparr>wu_status = REJECTED, wu_admin_notes = None\<rparr> root_user 300
       = (\<lparr> users = [root_user, alice\<lparr>u_wallet_balance := Fin 73 (- 1)\<rparr>], ad_watches = [],
            transactions = [],
            withdrawals = [req_approved\<lparr>w_status := REJECTED, w_processed_at := Some 300\<rparr>] \<rparr>,
          Inr REJECTED)
   \<and> u_wallet_balance alice = Fin 53 (- 1)
   \<and> withdrawals rejected_db = [req_rejected] \<and> w_status req_rejected = REJECTED
   \<and> update_withdrawal rejected_db ''w1'' \<lparr>wu_status = REJECTED, wu_admin_notes = None\<rparr> root_user 300
       = (\<lparr> users = [root_user, alice\<lparr>u_wallet_balance := Fin 73 (- 1)\<rparr>], ad_watches = [],
            transactions = [],
            withdrawals = [req_rejected\<lparr>w_processed_at := Some 300\<rparr>] \<rparr>,
          Inr REJECTED)"
  by (simp add: update_withdrawal_def update_withdrawal_stores_def update_dict_def Let_def
        approved_db_def rejected_db_def req_approved_def req_rejected_def root_user_def alice_def
        round_double_def finish_def round_half_even_div_def)

text \<open>
  C4, as the code has it. \<open>update_withdrawal\<close> has no guard on the recorded status: on any
  existing request, also one already approved or rejected, the call is accepted and the
  request's status becomes the new status. When the new status is rejected the owner's
  stored balance becomes its double-precision sum with the recorded amount, also when the
  request was rejected before; when the new status is not rejected, the users collection
  is unchanged. So re-processing a request with its recorded status leaves the status as
  it was and, unless that status is rejected, leaves every balance as it was.
\<close>

theorem update_withdrawal_unguarded:
  assumes "find_one (\<lambda>w. w_id w = wid) (withdrawals d) = Some w"
  shows "\<exists>d' w'. update_withdrawal d wid upd admin now = (d', Inr (wu_status upd))
      \<and> find_one (\<lambda>w. w_id w = wid) (withdrawals d') = Some w'
      \<and> w_status w' = wu_status upd
      \<and> (wu_status upd = REJECTED \<longrightarrow>
            (\<forall>u. find_one (\<lambda>u. u_id u = w_user_id w) (users d) = Some u \<longrightarrow>
                 find_one (\<lambda>u. u_id u = w_user_id w) (users d') =
                   Some (u\<lparr>u_wallet_balance := fadd (u_wallet_balance u) (w_amount w)\<rparr>)))
      \<and> (wu_status upd \<noteq> REJECTED \<longrightarrow> users d' = users d)
      \<and> (wu_status upd = w_status w \<longrightarrow> w_status w' = w_status w)
      \<and> (wu_status upd = w_status w \<and> w_status w \<noteq> REJECTED \<longrightarrow> users d' = users d)"
proof -
  let ?d' = "fst (update_withdrawal d wid upd admin now)"
  note eq = update_withdrawal_found [OF assms, of upd admin now]
  have res: "update_withdrawal d wid upd admin now = (?d', Inr (wu_status upd))"
    by (simp add: eq)
  have wd: "find_one (\<lambda>w. w_id w = wid) (withdrawals ?d') = Some (update_dict upd now w)"
    by (simp add: eq find_withdrawal_updated [OF assms])
  have rej: "find_one (\<lambda>u. u_id u = w_user_id w) (users ?d') =
               Some (u\<lparr>u_wallet_balance := fadd (u_wallet_balance u) (w_amount w)\<rparr>)"
    if "wu_status upd = REJECTED" "find_one (\<lambda>u. u_id u = w_user_id w) (users d) = Some u" for u
    using that by (simp add: eq find_user_credited)
  have keep: "users ?d' = users d" if "wu_status upd \<noteq> REJECTED"
    using that by (simp add: eq)
  from res wd rej keep show ?thesis
    by (intro exI [of _ ?d'] exI [of _ "update_dict upd now w"]) (simp add: update_dict_fields)
qed

theorem update_withdrawal_unguarded_witness:
  "(\<exists>d' w'. update_withdrawal rejected_db ''w1'' \<lparr>wu_status = REJECTED, wu_admin_notes = None\<rparr> root_user 300
             = (d', Inr REJECTED)
      \<and> find_one (\<lambda>w. w_id w = ''w1'') (withdrawals d') = Some w'
      \<and> w_status w' = REJECTED
      \<and> find_one (\<lambda>u. u_id u = ''u1'') (users d') = Some (alice\<lparr>u_wallet_balance := Fin 73 (- 1)\<rparr>))
   \<and> (\<exists>d' w'. update_withdrawal approved_db ''w1'' \<lparr>wu_status = APPROVED, wu_admin_notes = None\<rparr> root_user 300
             = (d', Inr APPROVED)
      \<and> find_one (\<lambda>w. w_id w = ''w1'') (withdrawals d') = Some w'
      \<and> w_status w' = APPROVED
      \<and> users d' = [root_user, alice])"
proof -
  have a: "find_one (\<lambda>u. u_id u = w_user_id req_rejected) (users rejected_db) = Some alice"
    by (simp add: rejected_db_def alice_def root_user_def req_rejected_def)
  have sum: "fadd (u_wallet_balance alice) (w_amount req_rejected) = Fin 73 (- 1)"
    by (simp add: alice_def req_rejected_def double_eval)
  from update_withdrawal_unguarded [OF find_req_rejected,
         of "\<lparr>wu_status = REJECTED, wu_admin_notes = None\<rparr>" root_user 300]
  obtain d' w' where
    "update_withdrawal rejected_db ''w1'' \<lparr>wu_status = REJECTED, wu_admin_notes = None\<rparr> root_user 300
       = (d', Inr REJECTED)"
    "find_one (\<lambda>w. w_id w = ''w1'') (withdrawals d') = Some w'"
    "w_status w' = REJECTED"
    "\<forall>u. find_one (\<lambda>u. u_id u = w_user_id req_rejected) (users rejected_db) = Some u \<longrightarrow>
         find_one (\<lambda>u. u_id u = w_user_id req_rejected) (users d') =
           Some (u\<lparr>u_wallet_balance := fadd (u_wallet_balance u) (w_amount req_rejected)\<rparr>)"
    by auto
  with a have 1: "\<exists>d' w'. update_withdrawal rejected_db ''w1'' \<lparr>wu_status = REJECTED, wu_admin_notes = None\<rparr> root_user 300
             = (d', Inr REJECTED)
      \<and> find_one (\<lambda>w. w_id w = ''w1'') (withdrawals d') = Some w'
      \<and> w_status w' = REJECTED
      \<and> find_one (\<lambda>u. u_id u = ''u1'') (users d') = Some (alice\<lparr>u_wallet_balance := Fin 73 (- 1)\<rparr>)"
    by (intro exI [of _ d'] exI [of _ w']) (simp add: sum, simp add: req_rejected_def)
  have s: "w_status req_approved = APPROVED" by (simp add: req_approved_def)
  from update_withdrawal_unguarded [OF find_req_approved,
         of "\<lparr>wu_status = APPROVED, wu_admin_notes = None\<rparr>" root_user 300] s
  obtain d2 w2 where
    "update_withdrawal approved_db ''w1'' \<lparr>wu_status = APPROVED, wu_admin_notes = None\<rparr> root_user 300
       = (d2, Inr APPROVED)"
    "find_one (\<lambda>w. w_id w = ''w1'') (withdrawals d2) = Some w2"
    "w_status w2 = APPROVED"
    "users d2 = users approved_db"
    by auto
  then have 2: "\<exists>d' w'. update_withdrawal approved_db ''w1'' \<lparr>wu_status = APPROVED, wu_admin_notes = None\<rparr> root_user 300
             = (d', Inr APPROVED)
      \<and> find_one (\<lambda>w. w_id w = ''w1'') (withdrawals d') = Some w'
      \<and> w_status w' = APPROVED
      \<and> users d' = [root_user, alice]"
    by (intro exI [of _ d2] exI [of _ w2]) (simp add: approved_db_def)
  from 1 2 show ?thesis by (rule conjI)
qed

text \<open>
  C5 fails on the code. \<open>request_withdrawal\<close> means to keep balances non-negative by its
  two guards, but both are \<open><\<close> comparisons, which are false when the amount is \<open>NaN\<close>. Bob
  signs up (balance 0.0, which is non-negative) and requests a withdrawal of \<open>NaN\<close>: the
  request is accepted, a request of amount \<open>NaN\<close> is stored and Bob's balance becomes
  \<open>NaN\<close>, which is not greater than or equal to 0.
\<close>

theorem nan_withdrawal_breaks_invariant:
  "run empty_db [Signup (bob_create None) signup_env1]
     = \<lparr> users = [new_user (bob_create None) signup_env1 None], ad_watches = [],
          transactions = [], withdrawals = [] \<rparr>
   \<and> u_wallet_balance (new_user (bob_create None) signup_env1 None) = Fin 0 0
   \<and> fle (Fin 0 0) (Fin 0 0)
   \<and> run empty_db
        [Signup (bob_create None) signup_env1,
         RequestWithdrawal (Payload (Some ''u2''))
           \<lparr>wc_amount = NaN, wc_payment_method = ESEWA, wc_payment_id = ''es-2''\<rparr> ''w1'' 600]
     = \<lparr> users = [(new_user (bob_create None) signup_env1 None)\<lparr>u_wallet_balance := NaN\<rparr>],
          ad_watches = [], transactions = [],
          withdrawals =
            [\<lparr> w_id = ''w1'', w_user_id = ''u2'', w_amount = NaN, w_payment_method = ESEWA,
               w_payment_id = ''es-2'', w_status = PENDING, w_requested_at = 600,
               w_processed_at = None, w_admin_notes = None \<rparr>] \<rparr>
   \<and> \<not> fle (Fin 0 0) NaN"
proof -
  have free: "find_one (\<lambda>u. u_email u = uc_email (bob_create None)) (users empty_db) = None"
    by (simp add: empty_db_def)
  have noref: "\<not> (\<exists>c r. uc_referral_code (bob_create None) = Some c \<and> c \<noteq> []
                 \<and> find_one (\<lambda>u. u_referral_code u = c) (users empty_db) = Some r)"
    by (simp add: bob_create_def)
  have s1: "run empty_db [Signup (bob_create None) signup_env1]
     = \<lparr> users = [new_user (bob_create None) signup_env1 None], ad_watches = [],
          transactions = [], withdrawals = [] \<rparr>"
    by (simp add: signup_no_referrer [OF free noref]) (simp add: empty_db_def)
  have s1': "fst (signup empty_db (bob_create None) signup_env1)
     = \<lparr> users = [new_user (bob_create None) signup_env1 None], ad_watches = [],
          transactions = [], withdrawals = [] \<rparr>"
    using s1 by simp
  have uid: "u_id (new_user (bob_create None) signup_env1 None) = ''u2''"
    and bal: "u_wallet_balance (new_user (bob_create None) signup_env1 None) = Fin 0 0"
    by (simp_all add: new_user_def signup_env1_def)
  have s2: "run empty_db
        [Signup (bob_create None) signup_env1,
         RequestWithdrawal (Payload (Some ''u2''))
           \<lparr>wc_amount = NaN, wc_payment_method = ESEWA, wc_payment_id = ''es-2''\<rparr> ''w1'' 600]
     = \<lparr> users = [(new_user (bob_create None) signup_env1 None)\<lparr>u_wallet_balance := NaN\<rparr>],
          ad_watches = [], transactions = [],
          withdrawals =
            [\<lparr> w_id = ''w1'', w_user_id = ''u2'', w_amount = NaN, w_payment_method = ESEWA,
               w_payment_id = ''es-2'', w_status = PENDING, w_requested_at = 600,
               w_processed_at = None, w_admin_notes = None \<rparr>] \<rparr>"
    by (simp add: s1' get_current_user_def request_withdrawal_def Let_def insert_one_def uid bal)
  from s1 s2 bal show ?thesis by simp
qed







text \<open>
  C8. A withdrawal request, successful or not, leaves the transactions collection as it
  was. For every request to the API the transactions after it are the transactions before
  it, or those followed by exactly one new transaction; the latter happens only for an ad
  watch, with type \<open>ad_reward\<close>, and for a signup, with type \<open>referral_bonus\<close>.
\<close>

theorem transactions_written_only_by_credits:
  "transactions (fst (request_withdrawal d wd cu new_id now)) = transactions d
   \<and> (transactions (handle d r) = transactions d
      \<or> (\<exists>t. transactions (handle d r) = transactions d @ [t]
            \<and> ((\<exists>cred ad env. r = WatchAd cred ad env) \<and> t_type t = ''ad_reward''
               \<or> (\<exists>ud env. r = Signup ud env) \<and> t_type t = ''referral_bonus'')))"
proof (rule conjI)
  show "transactions (fst (request_withdrawal d wd cu new_id now)) = transactions d"
    by (rule transactions_request_withdrawal)
  show "transactions (handle d r) = transactions d
      \<or> (\<exists>t. transactions (handle d r) = transactions d @ [t]
            \<and> ((\<exists>cred ad env. r = WatchAd cred ad env) \<and> t_type t = ''ad_reward''
               \<or> (\<exists>ud env. r = Signup ud env) \<and> t_type t = ''referral_bonus''))"
  proof (cases r)
    case (Signup ud env)
    with transactions_signup [of d ud env] show ?thesis by auto
  next
    case (WatchAd cred ad env)
    with transactions_watch_ad [of d ad _ env] show ?thesis
      by (cases "get_current_user d cred") auto
  next
    case (RequestWithdrawal cred wd' i n)
    then show ?thesis
      by (cases "get_current_user d cred") (simp_all add: transactions_request_withdrawal)
  next
    case (UpdateWithdrawal cred wid upd n)
    then show ?thesis
      by (cases "get_admin_user d cred") (simp_all add: transactions_update_withdrawal)
  qed simp_all
qed

theorem transactions_written_only_by_credits_witness:
  "snd (request_withdrawal example_db
          \<lparr>wc_amount = Fin 5 1, wc_payment_method = KHALTI, wc_payment_id = ''k-7''\<rparr> alice ''w2'' 200)
     = Inr ''w2''
   \<and> transactions (fst (request_withdrawal example_db
          \<lparr>wc_amount = Fin 5 1, wc_payment_method = KHALTI, wc_payment_id = ''k-7''\<rparr> alice ''w2'' 200))
     = []
   \<and> transactions (handle example_db
        (UpdateWithdrawal (Payload (Some ''u0'')) ''w1''
           \<lparr>wu_status = REJECTED, wu_admin_notes = None\<rparr> 300)) = []
   \<and> (\<exists>t. transactions (handle example_db
               (WatchAd (Payload (Some ''u1'')) \<lparr>ac_ad_type = ''video''\<rparr> watch_env1)) = [t]
          \<and> t_type t = ''ad_reward'')"
proof -
  let ?wd = "\<lparr>wc_amount = Fin 5 1, wc_payment_method = KHALTI, wc_payment_id = ''k-7''\<rparr>"
  let ?upd = "UpdateWithdrawal (Payload (Some ''u0'')) ''w1''
           \<lparr>wu_status = REJECTED, wu_admin_notes = None\<rparr> 300"
  let ?ad = "WatchAd (Payload (Some ''u1'')) \<lparr>ac_ad_type = ''video''\<rparr> watch_env1"
  have ok: "snd (request_withdrawal example_db ?wd alice ''w2'' 200) = Inr ''w2''"
    by (simp add: request_withdrawal_def Let_def example_db_def alice_def root_user_def)
  have nil: "transactions example_db = []" by (simp add: example_db_def)
  have grow: "transactions (handle example_db ?ad) \<noteq> transactions example_db"
    by (simp add: auth_alice watch_ad_def Let_def insert_one_def)
  have same: "transactions (handle example_db ?upd) \<noteq> transactions example_db @ [t]" for t
    by (simp add: get_admin_user_def get_current_user_def update_withdrawal_def
          update_withdrawal_stores_def Let_def example_db_def root_user_def req1_def)
  from transactions_written_only_by_credits [of example_db ?wd alice "''w2''" 200 ?ad]
       transactions_written_only_by_credits [of example_db ?wd alice "''w2''" 200 ?upd]
       ok nil grow same
  show ?thesis by auto
qed

text \<open>
  C9. For every store, the transaction listing, the caller's withdrawal listing and the
  admin withdrawal listing are ordered by descending timestamp (\<open>created_at\<close>, respectively
  \<open>requested_at\<close>), hold at most 100 entries (exactly the smaller of 100 and the number of
  matching documents), and hold only matching documents of the collection.
\<close>

theorem listings_newest_first_capped:
  "sorted_desc t_created_at (get_transactions d cu)
   \<and> length (get_transactions d cu) \<le> 100
   \<and> length (get_transactions d cu) =
        min 100 (length (filter (\<lambda>t. t_user_id t = u_id cu) (transactions d)))
   \<and> set (get_transactions d cu) \<subseteq> {t \<in> set (transactions d). t_user_id t = u_id cu}
   \<and> sorted_desc w_requested_at (get_my_withdrawals d cu)
   \<and> length (get_my_withdrawals d cu) \<le> 100
   \<and> length (get_my_withdrawals d cu) =
        min 100 (length (filter (\<lambda>w. w_user_id w = u_id cu) (withdrawals d)))
   \<and> set (get_my_withdrawals d cu) \<subseteq> {w \<in> set (withdrawals d). w_user_id w = u_id cu}
   \<and> sorted_desc w_requested_at (map aw_withdrawal (get_all_withdrawals d admin))
   \<and> length (get_all_withdrawals d admin) \<le> 100
   \<and> length (get_all_withdrawals d admin) = min 100 (length (withdrawals d))
   \<and> set (map aw_withdrawal (get_all_withdrawals d admin)) \<subseteq> set (withdrawals d)"
proof -
  have aw: "map aw_withdrawal (get_all_withdrawals d admin) =
              to_list 100 (sort_desc w_requested_at (find_all (\<lambda>w. True) (withdrawals d)))"
    by (simp add: get_all_withdrawals_def Let_def comp_def)
  have la: "length (get_all_withdrawals d admin) =
              length (to_list 100 (sort_desc w_requested_at (find_all (\<lambda>w. True) (withdrawals d))))"
    by (simp add: get_all_withdrawals_def)
  have t1: "sorted_desc t_created_at (get_transactions d cu)"
    unfolding get_transactions_def by (intro sorted_desc_to_list sorted_desc_sort_desc)
  have t2: "length (get_transactions d cu) =
        min 100 (length (filter (\<lambda>t. t_user_id t = u_id cu) (transactions d)))"
    unfolding get_transactions_def by (rule length_listing)
  have t3: "set (get_transactions d cu) \<subseteq> {t \<in> set (transactions d). t_user_id t = u_id cu}"
    unfolding get_transactions_def by (rule set_listing)
  have w1: "sorted_desc w_requested_at (get_my_withdrawals d cu)"
    unfolding get_my_withdrawals_def by (intro sorted_desc_to_list sorted_desc_sort_desc)
  have w2: "length (get_my_withdrawals d cu) =
        min 100 (length (filter (\<lambda>w. w_user_id w = u_id cu) (withdrawals d)))"
    unfolding get_my_withdrawals_def by (rule length_listing)
  have w3: "set (get_my_withdrawals d cu) \<subseteq> {w \<in> set (withdrawals d). w_user_id w = u_id cu}"
    unfolding get_my_withdrawals_def by (rule set_listing)
  have a1: "sorted_desc w_requested_at (map aw_withdrawal (get_all_withdrawals d admin))"
    unfolding aw by (intro sorted_desc_to_list sorted_desc_sort_desc)
  have a2: "length (get_all_withdrawals d admin) = min 100 (length (withdrawals d))"
    unfolding la using length_listing [of 100 w_requested_at "\<lambda>w. True" "withdrawals d"] by simp
  have a3: "set (map aw_withdrawal (get_all_withdrawals d admin)) \<subseteq> set (withdrawals d)"
    unfolding aw using set_listing [of 100 w_requested_at "\<lambda>w. True" "withdrawals d"] by simp
  from t2 w2 a2 have "length (get_transactions d cu) \<le> 100"
    "length (get_my_withdrawals d cu) \<le> 100" "length (get_all_withdrawals d admin) \<le> 100"
    by simp_all
  with t1 t2 t3 w1 w2 w3 a1 a2 a3 show ?thesis by blast
qed

theorem listings_newest_first_capped_witness:
  "get_transactions ledger_db alice = [tx ''t3'' ''u1'' 30, tx ''t4'' ''u1'' 20, tx ''t1'' ''u1'' 10]
   \<and> sorted_desc t_created_at (get_transactions ledger_db alice)
   \<and> length (get_transactions crowded_db alice) = 100
   \<and> length (get_my_withdrawals crowded_db alice) = 100
   \<and> length (get_all_withdrawals crowded_db root_user) = 100"
proof -
  have e: "get_transactions ledger_db alice =
             [tx ''t3'' ''u1'' 30, tx ''t4'' ''u1'' 20, tx ''t1'' ''u1'' 10]"
    by (simp add: get_transactions_def to_list_def sort_desc_def find_all_def ledger_db_def
          tx_def alice_def)
  have n: "length (filter (\<lambda>t. t_user_id t = u_id alice) (transactions crowded_db)) = 150"
    "length (filter (\<lambda>w. w_user_id w = u_id alice) (withdrawals crowded_db)) = 120"
    "length (withdrawals crowded_db) = 120"
    by (simp_all add: crowded_db_def tx_def alice_def req1_def)
  from listings_newest_first_capped [of ledger_db alice root_user]
       listings_newest_first_capped [of crowded_db alice root_user] e n
  show ?thesis by simp
qed

text \<open>
  C10. The \<open>new_balance\<close> of the ad-watch response is the double-precision sum of the
  wallet balance of the \<open>current_user\<close> record handed to the handler and 0.5, whatever the
  store holds; when that record is the one authentication resolved from the same store,
  it equals the balance persisted by the call, which \<open>get_wallet_balance\<close> then reports.
\<close>

theorem watch_ad_new_balance:
  "\<exists>d' resp. watch_ad d ad_data cu env = (d', Inr resp)
      \<and> new_balance resp = fadd (u_wallet_balance cu) (Fin 1 (- 1))
      \<and> (get_current_user d cred = Inr cu \<longrightarrow>
            map_option u_wallet_balance (find_one (\<lambda>u. u_id u = u_id cu) (users d'))
              = Some (new_balance resp)
          \<and> get_wallet_balance d' cu =
              Inr \<lparr> br_balance = new_balance resp,
                    br_total_earned = fadd (u_total_earned cu) (Fin 1 (- 1)),
                    br_ads_watched = u_ads_watched cu + 1 \<rparr>)"
proof -
  have "find_one (\<lambda>u. u_id u = u_id cu) (users d) = Some cu"
    if "get_current_user d cred = Inr cu"
    by (rule get_current_user_stored [OF that])
  then show ?thesis
    by (simp add: watch_ad_def Let_def insert_one_def find_user_ad_credited get_wallet_balance_def)
qed

theorem watch_ad_new_balance_witness:
  "\<exists>d' resp. watch_ad example_db \<lparr>ac_ad_type = ''video''\<rparr> alice watch_env1 = (d', Inr resp)
      \<and> new_balance resp = Fin 27 0
      \<and> map_option u_wallet_balance (find_one (\<lambda>u. u_id u = ''u1'') (users d')) = Some (Fin 27 0)"
proof -
  from watch_ad_new_balance [of example_db "\<lparr>ac_ad_type = ''video''\<rparr>" alice watch_env1
         "Payload (Some ''u1'')"] auth_alice
  obtain d' resp where
    "watch_ad example_db \<lparr>ac_ad_type = ''video''\<rparr> alice watch_env1 = (d', Inr resp)"
    "new_balance resp = fadd (u_wallet_balance alice) (Fin 1 (- 1))"
    "map_option u_wallet_balance (find_one (\<lambda>u. u_id u = u_id alice) (users d'))
              = Some (new_balance resp)"
    by blast
  then show ?thesis
    by (intro exI [of _ d'] exI [of _ resp]) (auto simp: alice_def double_eval)
qed

end
